theory Spec2Isabelle
  imports Complex_Main "HOL-Library.AList" "HOL-Library.Word"
begin

section \<open>Values of a frame\<close>

text \<open>
  The program is \<^verbatim>\<open>app_fraud_detection.py\<close>. Its numbers are float64 values held in
  the columns of a pandas DataFrame. A finite float64 value is modelled by the real
  number it denotes. Addition, subtraction and division are the IEEE 754 operations
  of numpy: the exact result, rounded to the nearest number with a 53-bit significand,
  ties to the even significand. The exponent range is taken as unbounded: overflow to
  infinity and gradual underflow are not part of the model. \<^verbatim>\<open>np.log1p\<close> is
  taken as correctly rounded.
\<close>

definition round_half_even :: "real \<Rightarrow> int" where
  "round_half_even y =
     (let f = \<lfloor>y\<rfloor> in
      if y - of_int f < 1 / 2 then f
      else if 1 / 2 < y - of_int f then f + 1
      else if even f then f else f + 1)"

text \<open>The spacing of the float64 numbers around \<open>x\<close>, for \<open>x\<close> other than 0.\<close>

definition ulp64 :: "real \<Rightarrow> real" where
  "ulp64 x = 2 powr (of_int (\<lfloor>log 2 \<bar>x\<bar>\<rfloor> - 52))"

definition round64 :: "real \<Rightarrow> real" where
  "round64 x = (if x = 0 then 0 else of_int (round_half_even (x / ulp64 x)) * ulp64 x)"

text \<open>
  The special values are part of the model, because pandas and numpy return them where
  Python's own floats would raise: a division by zero in a float64 column yields
  \<open>inf\<close>, \<open>-inf\<close> or \<open>nan\<close>, and \<^verbatim>\<open>np.log1p\<close> yields \<open>-inf\<close> at
  \<open>-1\<close> and \<open>nan\<close> below it. Zero is unsigned; every zero denominator of this
  program is the result of \<open>x + 1\<close>, which is never \<open>-0.0\<close>.
\<close>

datatype f64 = Fin real | PInf | NInf | NaN

fun f64_neg :: "f64 \<Rightarrow> f64" where
  "f64_neg (Fin x) = Fin (- x)"
| "f64_neg PInf = NInf"
| "f64_neg NInf = PInf"
| "f64_neg NaN = NaN"

fun f64_add :: "f64 \<Rightarrow> f64 \<Rightarrow> f64" where
  "f64_add (Fin x) (Fin y) = Fin (round64 (x + y))"
| "f64_add NaN _ = NaN"
| "f64_add _ NaN = NaN"
| "f64_add PInf NInf = NaN"
| "f64_add NInf PInf = NaN"
| "f64_add PInf _ = PInf"
| "f64_add _ PInf = PInf"
| "f64_add NInf _ = NInf"
| "f64_add _ NInf = NInf"

definition f64_sub :: "f64 \<Rightarrow> f64 \<Rightarrow> f64" where
  "f64_sub a b = f64_add a (f64_neg b)"

fun f64_div :: "f64 \<Rightarrow> f64 \<Rightarrow> f64" where
  "f64_div NaN _ = NaN"
| "f64_div _ NaN = NaN"
| "f64_div (Fin x) (Fin y) =
     (if y \<noteq> 0 then Fin (round64 (x / y))
      else if x = 0 then NaN
      else if 0 < x then PInf else NInf)"
| "f64_div (Fin x) _ = Fin 0"
| "f64_div PInf (Fin y) = (if 0 \<le> y then PInf else NInf)"
| "f64_div NInf (Fin y) = (if 0 \<le> y then NInf else PInf)"
| "f64_div _ _ = NaN"

fun f64_log1p :: "f64 \<Rightarrow> f64" where
  "f64_log1p (Fin x) =
     (if - 1 < x then Fin (round64 (ln (1 + x)))
      else if x = - 1 then NInf
      else NaN)"
| "f64_log1p PInf = PInf"
| "f64_log1p NInf = NaN"
| "f64_log1p NaN = NaN"

fun f64_eq :: "f64 \<Rightarrow> f64 \<Rightarrow> bool" where
  "f64_eq (Fin x) (Fin y) = (x = y)"
| "f64_eq PInf PInf = True"
| "f64_eq NInf NInf = True"
| "f64_eq _ _ = False"

fun f64_gt :: "f64 \<Rightarrow> f64 \<Rightarrow> bool" where
  "f64_gt NaN _ = False"
| "f64_gt _ NaN = False"
| "f64_gt (Fin x) (Fin y) = (y < x)"
| "f64_gt PInf PInf = False"
| "f64_gt PInf _ = True"
| "f64_gt _ PInf = False"
| "f64_gt NInf _ = False"
| "f64_gt _ NInf = True"

text \<open>
  An int64 value is a 64-bit word read as a signed number; its conversion to float64
  rounds.
\<close>

definition int_to_f64 :: "64 word \<Rightarrow> f64" where
  "int_to_f64 w = Fin (round64 (real_of_int (sint w)))"

section \<open>Columns and their elementwise operations\<close>

text \<open>
  A column (a pandas Series) has one dtype: float64, int64, or object holding Python
  strings. Other dtypes are outside the model. The exceptions the program can raise
  are values of \<open>error\<close>; \<open>ModelError\<close> stands for whatever the classifier raises.
\<close>

datatype column = Float64 "f64 list" | Int64 "64 word list" | Object "string list"

datatype error = KeyError string | TypeError | IndexError | ModelError string

text \<open>
  An arithmetic operator applied to an object column calls Python's operator on every
  element, and a string operand raises TypeError there. A column with no rows has no
  element to raise on.
\<close>

definition object_op :: "string list \<Rightarrow> error + column" where
  "object_op xs = (if xs = [] then Inr (Object []) else Inl TypeError)"

text \<open>\<^verbatim>\<open>a - b\<close>: int64 minus int64 wraps around; a float64 operand makes the result float64.\<close>

fun series_sub :: "column \<Rightarrow> column \<Rightarrow> error + column" where
  "series_sub (Object xs) _ = object_op xs"
| "series_sub _ (Object ys) = object_op ys"
| "series_sub (Int64 xs) (Int64 ys) = Inr (Int64 (map2 (-) xs ys))"
| "series_sub (Int64 xs) (Float64 ys) = Inr (Float64 (map2 f64_sub (map int_to_f64 xs) ys))"
| "series_sub (Float64 xs) (Int64 ys) = Inr (Float64 (map2 f64_sub xs (map int_to_f64 ys)))"
| "series_sub (Float64 xs) (Float64 ys) = Inr (Float64 (map2 f64_sub xs ys))"

text \<open>\<^verbatim>\<open>a + 1\<close>, the scalar being the Python int 1.\<close>

fun series_add_one :: "column \<Rightarrow> error + column" where
  "series_add_one (Object xs) = object_op xs"
| "series_add_one (Int64 xs) = Inr (Int64 (map (\<lambda>x. x + 1) xs))"
| "series_add_one (Float64 xs) = Inr (Float64 (map (\<lambda>x. f64_add x (Fin 1)) xs))"

text \<open>\<^verbatim>\<open>a / b\<close> is true division: the result is float64 whatever the numeric operands.\<close>

fun series_truediv :: "column \<Rightarrow> column \<Rightarrow> error + column" where
  "series_truediv (Object xs) _ = object_op xs"
| "series_truediv _ (Object ys) = object_op ys"
| "series_truediv (Int64 xs) (Int64 ys) =
     Inr (Float64 (map2 f64_div (map int_to_f64 xs) (map int_to_f64 ys)))"
| "series_truediv (Int64 xs) (Float64 ys) = Inr (Float64 (map2 f64_div (map int_to_f64 xs) ys))"
| "series_truediv (Float64 xs) (Int64 ys) = Inr (Float64 (map2 f64_div xs (map int_to_f64 ys)))"
| "series_truediv (Float64 xs) (Float64 ys) = Inr (Float64 (map2 f64_div xs ys))"

text \<open>
  \<^verbatim>\<open>(a == 0).astype(int)\<close>: the comparison never raises (a string is not equal to 0),
  and the Boolean result is converted to int64 at once.
\<close>

fun series_eq_zero_astype_int :: "column \<Rightarrow> error + column" where
  "series_eq_zero_astype_int (Object xs) = Inr (Int64 (map (\<lambda>_. 0) xs))"
| "series_eq_zero_astype_int (Int64 xs) = Inr (Int64 (map (\<lambda>x. if x = 0 then 1 else 0) xs))"
| "series_eq_zero_astype_int (Float64 xs) =
     Inr (Int64 (map (\<lambda>x. if f64_eq x (Fin 0) then 1 else 0) xs))"

text \<open>\<^verbatim>\<open>(a > 200000).astype(int)\<close>: ordering a string against an int raises TypeError.\<close>

fun series_gt_200000_astype_int :: "column \<Rightarrow> error + column" where
  "series_gt_200000_astype_int (Object xs) = (if xs = [] then Inr (Int64 []) else Inl TypeError)"
| "series_gt_200000_astype_int (Int64 xs) =
     Inr (Int64 (map (\<lambda>x. if 200000 < sint x then 1 else 0) xs))"
| "series_gt_200000_astype_int (Float64 xs) =
     Inr (Int64 (map (\<lambda>x. if f64_gt x (Fin 200000) then 1 else 0) xs))"

text \<open>\<^verbatim>\<open>np.log1p(a)\<close>: float64 for a numeric column.\<close>

fun log1p :: "column \<Rightarrow> error + column" where
  "log1p (Object xs) = object_op xs"
| "log1p (Int64 xs) = Inr (Float64 (map (\<lambda>x. f64_log1p (int_to_f64 x)) xs))"
| "log1p (Float64 xs) = Inr (Float64 (map f64_log1p xs))"

section \<open>Frames\<close>

text \<open>
  A DataFrame is the list of its columns in order, each under its name; the names are
  taken to be distinct and the columns of one frame to have the same length.
  \<^verbatim>\<open>df[k]\<close> raises KeyError for a name that is not a column; \<^verbatim>\<open>df[k] = c\<close>
  replaces the column \<open>k\<close> where it stands, or appends it as the last column
  (\<^const>\<open>AList.update\<close>).
\<close>

type_synonym frame = "(string \<times> column) list"

definition getitem :: "frame \<Rightarrow> string \<Rightarrow> error + column" where
  "getitem df k = (case map_of df k of None \<Rightarrow> Inl (KeyError k) | Some c \<Rightarrow> Inr c)"

definition ebind :: "error + 'a \<Rightarrow> ('a \<Rightarrow> error + 'b) \<Rightarrow> error + 'b" where
  "ebind m f = (case m of Inl e \<Rightarrow> Inl e | Inr x \<Rightarrow> f x)"

text \<open>One cell: \<^verbatim>\<open>df[k].iloc[i]\<close>, \<open>None\<close> when there is no such column or row.\<close>

datatype scalar = FloatV f64 | IntV "64 word" | StrV string

fun iloc :: "column \<Rightarrow> nat \<Rightarrow> scalar option" where
  "iloc (Float64 xs) i = (if i < length xs then Some (FloatV (xs ! i)) else None)"
| "iloc (Int64 xs) i = (if i < length xs then Some (IntV (xs ! i)) else None)"
| "iloc (Object xs) i = (if i < length xs then Some (StrV (xs ! i)) else None)"

definition cell :: "frame \<Rightarrow> string \<Rightarrow> nat \<Rightarrow> scalar option" where
  "cell df k i = (case map_of df k of None \<Rightarrow> None | Some c \<Rightarrow> iloc c i)"

section \<open>The store of frames\<close>

text \<open>
  Python passes a DataFrame by reference, and \<^verbatim>\<open>df[k] = c\<close> changes the object the
  reference points to. The store maps each reference to its frame; \<open>nxt\<close> is the first
  reference not yet given out. The trace lists the calls made so far to the feature
  function and to the classifier, oldest first.
\<close>

datatype event = CallFeatures nat | CallPredict frame | CallPredictProba frame

record state =
  heap :: "nat \<Rightarrow> frame"
  nxt :: nat
  trace :: "event list"

definition sbind ::
  "(state \<Rightarrow> (error + 'a) \<times> state) \<Rightarrow> ('a \<Rightarrow> state \<Rightarrow> (error + 'b) \<times> state) \<Rightarrow>
   state \<Rightarrow> (error + 'b) \<times> state" where
  "sbind m f s = (case m s of (Inl e, s') \<Rightarrow> (Inl e, s') | (Inr x, s') \<Rightarrow> f x s')"

definition alloc :: "frame \<Rightarrow> state \<Rightarrow> (error + nat) \<times> state" where
  "alloc f s = (Inr (nxt s), s\<lparr>heap := (heap s)(nxt s := f), nxt := Suc (nxt s)\<rparr>)"

text \<open>\<^verbatim>\<open>df.copy()\<close>: a new frame with the same columns.\<close>

definition copy :: "nat \<Rightarrow> state \<Rightarrow> (error + nat) \<times> state" where
  "copy df s = alloc (heap s df) s"

text \<open>
  \<^verbatim>\<open>df[k] = rhs\<close>: the right-hand side is evaluated on the frame as it is now; when it
  raises, the frame is left as it was.
\<close>

definition setitem ::
  "nat \<Rightarrow> string \<times> (frame \<Rightarrow> error + column) \<Rightarrow> state \<Rightarrow> (error + unit) \<times> state" where
  "setitem df kr s =
     (case snd kr (heap s df) of
        Inl e \<Rightarrow> (Inl e, s)
      | Inr c \<Rightarrow> (Inr (), s\<lparr>heap := (heap s)(df := AList.update (fst kr) c (heap s df))\<rparr>))"

fun setitems ::
  "nat \<Rightarrow> (string \<times> (frame \<Rightarrow> error + column)) list \<Rightarrow> state \<Rightarrow> (error + unit) \<times> state" where
  "setitems df [] s = (Inr (), s)"
| "setitems df (kr # krs) s = sbind (setitem df kr) (\<lambda>_. setitems df krs) s"

section \<open>The program\<close>

text \<open>The dictionary \<^verbatim>\<open>dic_type\<close> (lines 28 to 31), in its order.\<close>

definition dic_type :: "(string \<times> string) list" where
  "dic_type =
     [(''PAIEMENT'', ''PAYMENT''),
      (''TRANSFERT'', ''TRANSFER''),
      (''RETRAIT'', ''CASH_OUT''),
      (''DEPOT'', ''CASH_IN'')]"

text \<open>
  The twelve assignments of \<^verbatim>\<open>create_advanced_features\<close> (lines 40 to 59), in their
  order, each with its right-hand side; the operands are read left to right.
\<close>

definition feature_assignments :: "(string \<times> (frame \<Rightarrow> error + column)) list" where
  "feature_assignments =
     [(''balance_diff_orig'', \<lambda>df.
         ebind (getitem df ''oldbalanceOrg'') (\<lambda>a.
         ebind (getitem df ''newbalanceOrig'') (\<lambda>b. series_sub a b))),
      (''balance_diff_dest'', \<lambda>df.
         ebind (getitem df ''newbalanceDest'') (\<lambda>a.
         ebind (getitem df ''oldbalanceDest'') (\<lambda>b. series_sub a b))),
      (''amount_to_oldbalance_orig'', \<lambda>df.
         ebind (getitem df ''amount'') (\<lambda>a.
         ebind (getitem df ''oldbalanceOrg'') (\<lambda>b.
         ebind (series_add_one b) (\<lambda>b1. series_truediv a b1)))),
      (''amount_to_oldbalance_dest'', \<lambda>df.
         ebind (getitem df ''amount'') (\<lambda>a.
         ebind (getitem df ''oldbalanceDest'') (\<lambda>b.
         ebind (series_add_one b) (\<lambda>b1. series_truediv a b1)))),
      (''error_balance_orig'', \<lambda>df.
         ebind (getitem df ''balance_diff_orig'') (\<lambda>a.
         ebind (getitem df ''amount'') (\<lambda>b. series_sub a b))),
      (''error_balance_dest'', \<lambda>df.
         ebind (getitem df ''balance_diff_dest'') (\<lambda>a.
         ebind (getitem df ''amount'') (\<lambda>b. series_sub a b))),
      (''is_zero_balance_orig'', \<lambda>df.
         ebind (getitem df ''newbalanceOrig'') series_eq_zero_astype_int),
      (''is_zero_balance_dest'', \<lambda>df.
         ebind (getitem df ''oldbalanceDest'') series_eq_zero_astype_int),
      (''large_transaction'', \<lambda>df.
         ebind (getitem df ''amount'') series_gt_200000_astype_int),
      (''log_amount'', \<lambda>df. ebind (getitem df ''amount'') log1p),
      (''log_oldbalance_orig'', \<lambda>df. ebind (getitem df ''oldbalanceOrg'') log1p),
      (''log_oldbalance_dest'', \<lambda>df. ebind (getitem df ''oldbalanceDest'') log1p)]"

text \<open>
  \<^verbatim>\<open>create_advanced_features(df)\<close> (lines 33 to 61): copy the frame, run the twelve
  assignments on the copy, return the copy.
\<close>

definition create_advanced_features :: "nat \<Rightarrow> state \<Rightarrow> (error + nat) \<times> state" where
  "create_advanced_features df0 =
     sbind (copy df0) (\<lambda>df.
     sbind (setitems df feature_assignments) (\<lambda>_ s. (Inr df, s)))"

text \<open>
  The classifier is the object loaded from the pickle file: the program only calls its
  \<^verbatim>\<open>predict\<close> and \<^verbatim>\<open>predict_proba\<close>, which may raise.
\<close>

record classifier =
  predict :: "frame \<Rightarrow> error + int list"
  predict_proba :: "frame \<Rightarrow> error + (f64 \<times> f64) list"

text \<open>\<^verbatim>\<open>model.predict(df)[0]\<close> and \<^verbatim>\<open>model.predict_proba(df)[0, 1]\<close>.\<close>

definition call_predict :: "classifier \<Rightarrow> nat \<Rightarrow> state \<Rightarrow> (error + int) \<times> state" where
  "call_predict model df s =
     (let s' = s\<lparr>trace := trace s @ [CallPredict (heap s df)]\<rparr> in
      case predict model (heap s df) of
        Inl e \<Rightarrow> (Inl e, s')
      | Inr ys \<Rightarrow> (case ys of [] \<Rightarrow> (Inl IndexError, s') | y # _ \<Rightarrow> (Inr y, s')))"

definition call_predict_proba :: "classifier \<Rightarrow> nat \<Rightarrow> state \<Rightarrow> (error + f64) \<times> state" where
  "call_predict_proba model df s =
     (let s' = s\<lparr>trace := trace s @ [CallPredictProba (heap s df)]\<rparr> in
      case predict_proba model (heap s df) of
        Inl e \<Rightarrow> (Inl e, s')
      | Inr ps \<Rightarrow> (case ps of [] \<Rightarrow> (Inl IndexError, s') | p # _ \<Rightarrow> (Inr (snd p), s')))"

definition call_features :: "nat \<Rightarrow> state \<Rightarrow> (error + nat) \<times> state" where
  "call_features df s = create_advanced_features df (s\<lparr>trace := trace s @ [CallFeatures df]\<rparr>)"

text \<open>
  The one-row frame built from the form's values (lines 149 to 156). The numbers come
  from \<^verbatim>\<open>st.number_input\<close> and are finite floats.
\<close>

definition input_frame :: "string \<Rightarrow> real \<Rightarrow> real \<Rightarrow> real \<Rightarrow> real \<Rightarrow> real \<Rightarrow> frame" where
  "input_frame ty amount oldbalanceOrg newbalanceOrig oldbalanceDest newbalanceDest =
     [(''type'', Object [ty]),
      (''amount'', Float64 [Fin amount]),
      (''oldbalanceOrg'', Float64 [Fin oldbalanceOrg]),
      (''newbalanceOrig'', Float64 [Fin newbalanceOrig]),
      (''oldbalanceDest'', Float64 [Fin oldbalanceDest]),
      (''newbalanceDest'', Float64 [Fin newbalanceDest])]"

text \<open>
  The body of the button \<^verbatim>\<open>Analyser la Transaction\<close> (lines 146 to 163) up to the
  prediction and its probability; what follows only renders them. The dictionary lookup
  \<^verbatim>\<open>dic_type[transaction_type]\<close> is the first thing evaluated, and raises KeyError
  for a label that is not a key.
\<close>

definition analyser_la_transaction ::
  "classifier \<Rightarrow> string \<Rightarrow> real \<Rightarrow> real \<Rightarrow> real \<Rightarrow> real \<Rightarrow> real \<Rightarrow>
   state \<Rightarrow> (error + int \<times> f64) \<times> state" where
  "analyser_la_transaction model transaction_type amount oldbalanceOrg newbalanceOrig
       oldbalanceDest newbalanceDest s =
     (case map_of dic_type transaction_type of
        None \<Rightarrow> (Inl (KeyError transaction_type), s)
      | Some ty \<Rightarrow>
          sbind (alloc (input_frame ty amount oldbalanceOrg newbalanceOrig
                          oldbalanceDest newbalanceDest)) (\<lambda>input_data.
          sbind (call_features input_data) (\<lambda>input_data_enhanced.
          sbind (call_predict model input_data_enhanced) (\<lambda>prediction.
          sbind (call_predict_proba model input_data_enhanced) (\<lambda>probability s'.
            (Inr (prediction, probability), s'))))) s)"

section \<open>The assignments as a function of the frame\<close>

text \<open>
  What a list of assignments computes from a frame, without the store: the frame after
  the last assignment, or the first exception.
\<close>

fun eval_assignments ::
  "(string \<times> (frame \<Rightarrow> error + column)) list \<Rightarrow> frame \<Rightarrow> error + frame" where
  "eval_assignments [] df = Inr df"
| "eval_assignments (kr # krs) df =
     (case snd kr df of
        Inl e \<Rightarrow> Inl e
      | Inr c \<Rightarrow> eval_assignments krs (AList.update (fst kr) c df))"


text \<open>A store that holds one frame, at reference 0.\<close>

definition store_of :: "frame \<Rightarrow> state" where
  "store_of df = \<lparr>heap = (\<lambda>_. [])(0 := df), nxt = 1, trace = []\<rparr>"

section \<open>Observations used by the statements\<close>

text \<open>
  Row \<open>i\<close> of a frame is a raw transaction: the six raw columns are there,
  \<^verbatim>\<open>type\<close> holds strings, the five others are float64, and row \<open>i\<close> holds the
  given finite values.
\<close>

definition raw_row ::
  "frame \<Rightarrow> nat \<Rightarrow> string \<Rightarrow> real \<Rightarrow> real \<Rightarrow> real \<Rightarrow> real \<Rightarrow> real \<Rightarrow> bool" where
  "raw_row df i ty amount oldbalanceOrg newbalanceOrig oldbalanceDest newbalanceDest \<longleftrightarrow>
     cell df ''type'' i = Some (StrV ty) \<and>
     cell df ''amount'' i = Some (FloatV (Fin amount)) \<and>
     cell df ''oldbalanceOrg'' i = Some (FloatV (Fin oldbalanceOrg)) \<and>
     cell df ''newbalanceOrig'' i = Some (FloatV (Fin newbalanceOrig)) \<and>
     cell df ''oldbalanceDest'' i = Some (FloatV (Fin oldbalanceDest)) \<and>
     cell df ''newbalanceDest'' i = Some (FloatV (Fin newbalanceDest))"


text \<open>
  What a call gives back to its caller: the exception, or the frame behind the
  reference it returns.
\<close>

definition returned :: "(error + nat) \<times> state \<Rightarrow> error + frame" where
  "returned out = (case fst out of Inl e \<Rightarrow> Inl e | Inr r \<Rightarrow> Inr (heap (snd out) r))"

text \<open>
  The frame after the twelve assignments when the five numeric raw columns are float64
  columns \<open>am\<close>, \<open>ob\<close>, \<open>nb\<close>, \<open>od\<close>, \<open>nd\<close> (proved below to be what
  the assignments compute).
\<close>

definition enriched :: "f64 list \<Rightarrow> f64 list \<Rightarrow> f64 list \<Rightarrow> f64 list \<Rightarrow> f64 list \<Rightarrow> frame \<Rightarrow> frame" where
  "enriched am ob nb od nd df =
    (AList.update ''log_oldbalance_dest'' (Float64 (map f64_log1p od))
    (AList.update ''log_oldbalance_orig'' (Float64 (map f64_log1p ob))
    (AList.update ''log_amount'' (Float64 (map f64_log1p am))
    (AList.update ''large_transaction''
       (Int64 (map (\<lambda>x. if f64_gt x (Fin 200000) then 1 else 0) am))
    (AList.update ''is_zero_balance_dest''
       (Int64 (map (\<lambda>x. if f64_eq x (Fin 0) then 1 else 0) od))
    (AList.update ''is_zero_balance_orig''
       (Int64 (map (\<lambda>x. if f64_eq x (Fin 0) then 1 else 0) nb))
    (AList.update ''error_balance_dest'' (Float64 (map2 f64_sub (map2 f64_sub nd od) am))
    (AList.update ''error_balance_orig'' (Float64 (map2 f64_sub (map2 f64_sub ob nb) am))
    (AList.update ''amount_to_oldbalance_dest''
       (Float64 (map2 f64_div am (map (\<lambda>x. f64_add x (Fin 1)) od)))
    (AList.update ''amount_to_oldbalance_orig''
       (Float64 (map2 f64_div am (map (\<lambda>x. f64_add x (Fin 1)) ob)))
    (AList.update ''balance_diff_dest'' (Float64 (map2 f64_sub nd od))
    (AList.update ''balance_diff_orig'' (Float64 (map2 f64_sub ob nb)) df))))))))))))"

text \<open>A frame of two transactions, for the examples.\<close>

definition two_rows :: frame where
  "two_rows =
     [(''type'', Object [''PAYMENT'', ''TRANSFER'']),
      (''amount'', Float64 [Fin 50, Fin 250000]),
      (''oldbalanceOrg'', Float64 [Fin 100, Fin 300000]),
      (''newbalanceOrig'', Float64 [Fin 50, Fin 50000]),
      (''oldbalanceDest'', Float64 [Fin 0, Fin 0]),
      (''newbalanceDest'', Float64 [Fin 50, Fin 250000])]"

section \<open>Rounding to float64\<close>

lemma round_half_even_of_int [simp]: "round_half_even (of_int k) = k"
  by (simp add: round_half_even_def)

lemma ulp64_pos: "0 < ulp64 x"
  by (simp add: ulp64_def)

lemma ulp64_eq:
  assumes "2 powr (of_int e) \<le> \<bar>x\<bar>" and "\<bar>x\<bar> < 2 powr (of_int (e + 1))"
  shows "ulp64 x = 2 powr (of_int (e - 52))"
proof -
  have "(0::real) < 2 powr (of_int e)" by simp
  then have "0 < \<bar>x\<bar>" using assms(1) by (rule less_le_trans)
  with assms have "\<lfloor>log 2 \<bar>x\<bar>\<rfloor> = e"
    by (subst floor_log_eq_powr_iff) (simp_all add: add.commute)
  then show ?thesis by (simp add: ulp64_def)
qed

lemma pow2_split: "(2::real) ^ n * 2 powr (r - real n) = 2 powr r"
proof -
  have "(2::real) powr r = 2 powr (real n + (r - real n))" by simp
  also have "\<dots> = 2 powr (real n) * 2 powr (r - real n)" by (rule powr_add)
  also have "(2::real) powr (real n) = 2 ^ n" by (simp add: powr_realpow)
  finally show ?thesis by simp
qed

lemma ulp64_bounds:
  assumes "x \<noteq> 0"
  shows "2 ^ 52 * ulp64 x \<le> \<bar>x\<bar>" and "\<bar>x\<bar> < 2 ^ 53 * ulp64 x"
proof -
  define e where "e = \<lfloor>log 2 \<bar>x\<bar>\<rfloor>"
  from assms have pos: "0 < \<bar>x\<bar>" by simp
  have "\<lfloor>log 2 \<bar>x\<bar>\<rfloor> = e" by (simp add: e_def)
  with pos have b: "2 powr (of_int e) \<le> \<bar>x\<bar>" "\<bar>x\<bar> < 2 powr (of_int e + 1)"
    by (simp_all add: floor_log_eq_powr_iff)
  have u: "ulp64 x = 2 powr (of_int e - real 52)" by (simp add: ulp64_def e_def)
  have "2 ^ 52 * ulp64 x = 2 powr (of_int e)"
    unfolding u by (rule pow2_split)
  with b show "2 ^ 52 * ulp64 x \<le> \<bar>x\<bar>" by simp
  have "ulp64 x = 2 powr ((of_int e + 1) - real 53)" by (simp add: u)
  then have "2 ^ 53 * ulp64 x = 2 powr (of_int e + 1)"
    by (simp only: pow2_split)
  with b show "\<bar>x\<bar> < 2 ^ 53 * ulp64 x" by simp
qed

lemma round_half_even_bounds:
  "\<bar>of_int (round_half_even y) - y\<bar> \<le> 1 / 2"
  unfolding round_half_even_def Let_def by (auto simp: abs_if) linarith+

lemma round64_eq_0_iff [simp]: "round64 x = 0 \<longleftrightarrow> x = 0"
proof
  assume r: "round64 x = 0"
  show "x = 0"
  proof (rule ccontr)
    assume nz: "x \<noteq> 0"
    with r have "round_half_even (x / ulp64 x) = 0"
      using ulp64_pos [of x] by (simp add: round64_def)
    with round_half_even_bounds [of "x / ulp64 x"] have "\<bar>x / ulp64 x\<bar> \<le> 1 / 2" by simp
    then have "\<bar>x\<bar> \<le> ulp64 x / 2"
      using ulp64_pos [of x] by (simp add: field_simps abs_mult)
    moreover from ulp64_bounds(1) [OF nz] have "2 ^ 52 * ulp64 x \<le> \<bar>x\<bar>" .
    ultimately show False using ulp64_pos [of x] by simp
  qed
qed (simp add: round64_def)

lemma round64_exact:
  assumes "x / ulp64 x \<in> \<int>"
  shows "round64 x = x"
proof (cases "x = 0")
  case True
  then show ?thesis by (simp add: round64_def)
next
  case False
  from assms obtain k where k: "x / ulp64 x = of_int k" by (auto elim: Ints_cases)
  then have "of_int (round_half_even (x / ulp64 x)) * ulp64 x = (x / ulp64 x) * ulp64 x"
    by simp
  also have "\<dots> = x" using ulp64_pos [of x] by simp
  finally show ?thesis using False by (simp add: round64_def)
qed

lemma round64_of_int:
  assumes "\<bar>n\<bar> < 2 ^ 53"
  shows "round64 (of_int n) = of_int n"
proof (cases "n = 0")
  case True
  then show ?thesis by (simp add: round64_def)
next
  case False
  define x :: real where "x = of_int n"
  define e where "e = \<lfloor>log 2 \<bar>x\<bar>\<rfloor>"
  from False have x1: "1 \<le> \<bar>x\<bar>" unfolding x_def by (simp flip: of_int_abs)
  from assms have x2: "\<bar>x\<bar> < 2 ^ 53" unfolding x_def
    by (metis of_int_abs of_int_less_numeral_power_cancel_iff)
  from x1 have "0 \<le> log 2 \<bar>x\<bar>" by simp
  then have e0: "0 \<le> e" by (simp add: e_def)
  from x1 x2 have "log 2 \<bar>x\<bar> < 53"
    by (simp add: log_less_iff powr_numeral del: powr_numeral)
  then have e52: "e \<le> 52" unfolding e_def by (simp add: floor_le_iff)
  define q where "q = nat (52 - e)"
  have "ulp64 x = 2 powr (- real q)"
    using e52 by (simp add: ulp64_def e_def q_def)
  then have u: "ulp64 x = 1 / 2 ^ q" by (simp add: powr_minus powr_realpow inverse_eq_divide)
  then have "x / ulp64 x = of_int (n * 2 ^ q)" by (simp add: x_def)
  then have "x / ulp64 x \<in> \<int>" by (metis Ints_of_int)
  then show ?thesis unfolding x_def [symmetric] by (rule round64_exact)
qed

lemma round64_numeral [simp]:
  "(numeral n :: int) < 2 ^ 53 \<Longrightarrow> round64 (numeral n) = numeral n"
  using round64_of_int [of "numeral n"] by simp

lemma round64_0 [simp]: "round64 0 = 0"
  by (simp add: round64_def)

lemma round64_1 [simp]: "round64 1 = 1"
  using round64_of_int [of 1] by simp

lemma round64_neg_numeral [simp]:
  "(numeral n :: int) < 2 ^ 53 \<Longrightarrow> round64 (- numeral n) = - numeral n"
  using round64_of_int [of "- numeral n"] by simp

lemma round64_error: "\<bar>round64 x - x\<bar> \<le> \<bar>x\<bar> / 2 ^ 53"
proof (cases "x = 0")
  case True
  then show ?thesis by (simp add: round64_def)
next
  case False
  define u where "u = ulp64 x"
  have u: "0 < u" unfolding u_def by (rule ulp64_pos)
  have "round64 x - x = (of_int (round_half_even (x / u)) - x / u) * u"
    using False u by (simp add: round64_def u_def algebra_simps)
  then have "\<bar>round64 x - x\<bar> = \<bar>of_int (round_half_even (x / u)) - x / u\<bar> * u"
    using u by (simp add: abs_mult)
  also have "\<dots> \<le> (1 / 2) * u"
    using u round_half_even_bounds [of "x / u"] by (intro mult_right_mono) simp_all
  also have "\<dots> \<le> \<bar>x\<bar> / 2 ^ 53"
    using ulp64_bounds(1) [OF False] by (simp add: u_def)
  finally show ?thesis .
qed


lemma round64_eval:
  assumes "2 powr (of_int e) \<le> \<bar>x\<bar>" and "\<bar>x\<bar> < 2 powr (of_int (e + 1))"
    and "round_half_even (x / 2 powr (of_int (e - 52))) = k"
  shows "round64 x = of_int k * 2 powr (of_int (e - 52))"
proof -
  from assms(1,2) have u: "ulp64 x = 2 powr (of_int (e - 52))" by (rule ulp64_eq)
  have "(0::real) < 2 powr (of_int e)" by simp
  then have "0 < \<bar>x\<bar>" using assms(1) by (rule less_le_trans)
  then have "x \<noteq> 0" by simp
  with assms(3) show ?thesis by (simp add: round64_def u)
qed

text \<open>
  Checks of the rounding against Python's floats: \<^verbatim>\<open>(1000/10001).as_integer_ratio()\<close>
  is \<open>7205038899902803 / 2 ^ 56\<close>; the floats \<^verbatim>\<open>0.1\<close> and \<^verbatim>\<open>0.7\<close> are
  \<open>3602879701896397 / 2 ^ 55\<close> and \<open>3152519739159347 / 2 ^ 52\<close>, their float
  difference \<^verbatim>\<open>0.1 - 0.7\<close> is \<open>- 5404319552844595 / 2 ^ 53\<close> and
  \<^verbatim>\<open>(0.1 - 0.7) + 0.7\<close> is \<open>900719925474099 / 2 ^ 53\<close>, printed
  \<^verbatim>\<open>0.09999999999999998\<close>.
\<close>

lemma round64_quotient_example:
  "round64 (1000 / 10001) = 7205038899902803 / 2 ^ 56"
proof -
  have "round_half_even (1000 / 10001 / 2 powr (of_int (- 4 - 52))) = 7205038899902803"
    by (simp add: round_half_even_def Let_def powr_minus inverse_eq_divide)
  then have "round64 (1000 / 10001) = of_int 7205038899902803 * 2 powr (of_int (- 4 - 52))"
    by (intro round64_eval) (simp_all add: powr_minus)
  then show ?thesis by (simp add: powr_minus inverse_eq_divide)
qed



lemma round64_loses_small_term: "round64 (1 / 2 ^ 60 - 1) = - 1"
proof -
  have "round_half_even ((1 / 2 ^ 60 - 1) / 2 powr (of_int (- 1 - 52))) = - 9007199254740992"
    by (simp add: round_half_even_def Let_def powr_minus inverse_eq_divide)
  moreover have "2 powr (of_int (- 1)) \<le> \<bar>1 / 2 ^ 60 - 1 :: real\<bar>"
    "\<bar>1 / 2 ^ 60 - 1 :: real\<bar> < 2 powr (of_int (- 1 + 1))"
    by (simp_all add: powr_minus)
  ultimately have "round64 (1 / 2 ^ 60 - 1) =
      of_int (- 9007199254740992) * 2 powr (of_int (- 1 - 52))"
    by (intro round64_eval)
  then show ?thesis by (simp add: powr_minus inverse_eq_divide)
qed

section \<open>The store and the assignments\<close>

lemma setitems_eval:
  "eval_assignments krs (heap s a) = Inr f \<Longrightarrow>
   setitems a krs s = (Inr (), s\<lparr>heap := (heap s)(a := f)\<rparr>)"
proof (induction krs arbitrary: s)
  case Nil
  then have "(heap s)(a := f) = heap s" by auto
  then show ?case by simp
next
  case (Cons kr krs)
  from Cons.prems obtain c where c: "snd kr (heap s a) = Inr c"
    and rest: "eval_assignments krs (AList.update (fst kr) c (heap s a)) = Inr f"
    by (auto split: sum.splits)
  let ?s1 = "s\<lparr>heap := (heap s)(a := AList.update (fst kr) c (heap s a))\<rparr>"
  from rest have "eval_assignments krs (heap ?s1 a) = Inr f" by simp
  from Cons.IH [OF this]
  have "setitems a krs ?s1 = (Inr (), ?s1\<lparr>heap := (heap ?s1)(a := f)\<rparr>)" .
  moreover have "?s1\<lparr>heap := (heap ?s1)(a := f)\<rparr> = s\<lparr>heap := (heap s)(a := f)\<rparr>"
    by simp
  ultimately have "setitems a krs ?s1 = (Inr (), s\<lparr>heap := (heap s)(a := f)\<rparr>)"
    by (simp only:)
  with c show ?case
    by (simp only: setitems.simps sbind_def setitem_def sum.case prod.case)
qed

lemma setitems_eval_error:
  "eval_assignments krs (heap s a) = Inl e \<Longrightarrow> fst (setitems a krs s) = Inl e"
proof (induction krs arbitrary: s)
  case Nil
  then show ?case by simp
next
  case (Cons kr krs)
  show ?case
  proof (cases "snd kr (heap s a)")
    case (Inl e')
    with Cons.prems show ?thesis by (simp add: sbind_def setitem_def)
  next
    case (Inr c)
    let ?s1 = "s\<lparr>heap := (heap s)(a := AList.update (fst kr) c (heap s a))\<rparr>"
    from Inr Cons.prems have "eval_assignments krs (heap ?s1 a) = Inl e" by simp
    from Cons.IH [OF this] Inr show ?thesis by (simp add: sbind_def setitem_def)
  qed
qed

lemma setitems_elsewhere:
  "snd (setitems a krs s) = s' \<Longrightarrow>
   nxt s' = nxt s \<and> trace s' = trace s \<and> (\<forall>b. b \<noteq> a \<longrightarrow> heap s' b = heap s b)"
proof (induction krs arbitrary: s)
  case Nil
  then show ?case by auto
next
  case (Cons kr krs)
  show ?case
  proof (cases "snd kr (heap s a)")
    case (Inl e)
    with Cons.prems show ?thesis by (auto simp: sbind_def setitem_def)
  next
    case (Inr c)
    let ?s1 = "s\<lparr>heap := (heap s)(a := AList.update (fst kr) c (heap s a))\<rparr>"
    from Inr Cons.prems have "snd (setitems a krs ?s1) = s'"
      by (simp add: sbind_def setitem_def)
    from Cons.IH [OF this] show ?thesis by simp
  qed
qed

lemma features_success:
  assumes "eval_assignments feature_assignments (heap s a) = Inr f"
  shows "create_advanced_features a s =
           (Inr (nxt s), s\<lparr>heap := (heap s)(nxt s := f), nxt := Suc (nxt s)\<rparr>)"
proof -
  let ?s1 = "s\<lparr>heap := (heap s)(nxt s := heap s a), nxt := Suc (nxt s)\<rparr>"
  have "eval_assignments feature_assignments (heap ?s1 (nxt s)) = Inr f"
    using assms by simp
  from setitems_eval [OF this] show ?thesis
    by (simp add: create_advanced_features_def sbind_def copy_def alloc_def)
qed

lemma features_error:
  assumes "eval_assignments feature_assignments (heap s a) = Inl e"
  shows "fst (create_advanced_features a s) = Inl e"
proof -
  let ?s1 = "s\<lparr>heap := (heap s)(nxt s := heap s a), nxt := Suc (nxt s)\<rparr>"
  have "eval_assignments feature_assignments (heap ?s1 (nxt s)) = Inl e"
    using assms by simp
  from setitems_eval_error [OF this] show ?thesis
    by (auto simp: create_advanced_features_def sbind_def copy_def alloc_def split: prod.splits sum.splits)
qed

lemma features_elsewhere:
  assumes "b < nxt s"
  shows "heap (snd (create_advanced_features a s)) b = heap s b"
    and "nxt (snd (create_advanced_features a s)) = Suc (nxt s)"
    and "trace (snd (create_advanced_features a s)) = trace s"
proof -
  let ?s1 = "s\<lparr>heap := (heap s)(nxt s := heap s a), nxt := Suc (nxt s)\<rparr>"
  let ?s2 = "snd (setitems (nxt s) feature_assignments ?s1)"
  have eq: "snd (create_advanced_features a s) = ?s2"
    by (auto simp: create_advanced_features_def sbind_def copy_def alloc_def split: prod.splits sum.splits)
  have "nxt ?s2 = nxt ?s1 \<and> trace ?s2 = trace ?s1 \<and> (\<forall>b. b \<noteq> nxt s \<longrightarrow> heap ?s2 b = heap ?s1 b)"
    by (rule setitems_elsewhere) simp
  with assms eq show "heap (snd (create_advanced_features a s)) b = heap s b"
    and "nxt (snd (create_advanced_features a s)) = Suc (nxt s)"
    and "trace (snd (create_advanced_features a s)) = trace s"
    by auto
qed

section \<open>Float64 columns\<close>

lemma eval_float_columns:
  assumes "map_of df ''amount'' = Some (Float64 am)"
    and "map_of df ''oldbalanceOrg'' = Some (Float64 ob)"
    and "map_of df ''newbalanceOrig'' = Some (Float64 nb)"
    and "map_of df ''oldbalanceDest'' = Some (Float64 od)"
    and "map_of df ''newbalanceDest'' = Some (Float64 nd)"
  shows "eval_assignments feature_assignments df = Inr
    (AList.update ''log_oldbalance_dest'' (Float64 (map f64_log1p od))
    (AList.update ''log_oldbalance_orig'' (Float64 (map f64_log1p ob))
    (AList.update ''log_amount'' (Float64 (map f64_log1p am))
    (AList.update ''large_transaction''
       (Int64 (map (\<lambda>x. if f64_gt x (Fin 200000) then 1 else 0) am))
    (AList.update ''is_zero_balance_dest''
       (Int64 (map (\<lambda>x. if f64_eq x (Fin 0) then 1 else 0) od))
    (AList.update ''is_zero_balance_orig''
       (Int64 (map (\<lambda>x. if f64_eq x (Fin 0) then 1 else 0) nb))
    (AList.update ''error_balance_dest'' (Float64 (map2 f64_sub (map2 f64_sub nd od) am))
    (AList.update ''error_balance_orig'' (Float64 (map2 f64_sub (map2 f64_sub ob nb) am))
    (AList.update ''amount_to_oldbalance_dest''
       (Float64 (map2 f64_div am (map (\<lambda>x. f64_add x (Fin 1)) od)))
    (AList.update ''amount_to_oldbalance_orig''
       (Float64 (map2 f64_div am (map (\<lambda>x. f64_add x (Fin 1)) ob)))
    (AList.update ''balance_diff_dest'' (Float64 (map2 f64_sub nd od))
    (AList.update ''balance_diff_orig'' (Float64 (map2 f64_sub ob nb)) df))))))))))))"
  using assms
  by (simp add: feature_assignments_def getitem_def ebind_def update_conv')

lemma cell_FloatD:
  assumes "cell df k i = Some (FloatV v)"
  obtains xs where "map_of df k = Some (Float64 xs)" and "i < length xs" and "xs ! i = v"
proof -
  from assms obtain c where c: "map_of df k = Some c" and i: "iloc c i = Some (FloatV v)"
    by (auto simp: cell_def split: option.splits)
  from i obtain xs where "c = Float64 xs" "i < length xs" "xs ! i = v"
    by (cases c) (auto split: if_splits)
  with c that show thesis by simp
qed

lemma features_float_columns:
  assumes "map_of (heap s df) ''amount'' = Some (Float64 am)"
    and "map_of (heap s df) ''oldbalanceOrg'' = Some (Float64 ob)"
    and "map_of (heap s df) ''newbalanceOrig'' = Some (Float64 nb)"
    and "map_of (heap s df) ''oldbalanceDest'' = Some (Float64 od)"
    and "map_of (heap s df) ''newbalanceDest'' = Some (Float64 nd)"
  shows "create_advanced_features df s =
    (Inr (nxt s),
     s\<lparr>heap := (heap s)(nxt s := enriched am ob nb od nd (heap s df)), nxt := Suc (nxt s)\<rparr>)"
  unfolding enriched_def
  by (rule features_success, rule eval_float_columns) (rule assms)+

lemma raw_row_features:
  assumes "raw_row (heap s df) i ty a ob nb od nd"
  obtains ams obs nbs ods nds where
    "create_advanced_features df s =
      (Inr (nxt s),
       s\<lparr>heap := (heap s)(nxt s := enriched ams obs nbs ods nds (heap s df)),
         nxt := Suc (nxt s)\<rparr>)"
    and "i < length ams" "ams ! i = Fin a"
    and "i < length obs" "obs ! i = Fin ob"
    and "i < length nbs" "nbs ! i = Fin nb"
    and "i < length ods" "ods ! i = Fin od"
    and "i < length nds" "nds ! i = Fin nd"
proof -
  from assms obtain ams where 1: "map_of (heap s df) ''amount'' = Some (Float64 ams)"
    "i < length ams" "ams ! i = Fin a"
    unfolding raw_row_def by (blast elim: cell_FloatD)
  from assms obtain obs where 2: "map_of (heap s df) ''oldbalanceOrg'' = Some (Float64 obs)"
    "i < length obs" "obs ! i = Fin ob"
    unfolding raw_row_def by (blast elim: cell_FloatD)
  from assms obtain nbs where 3: "map_of (heap s df) ''newbalanceOrig'' = Some (Float64 nbs)"
    "i < length nbs" "nbs ! i = Fin nb"
    unfolding raw_row_def by (blast elim: cell_FloatD)
  from assms obtain ods where 4: "map_of (heap s df) ''oldbalanceDest'' = Some (Float64 ods)"
    "i < length ods" "ods ! i = Fin od"
    unfolding raw_row_def by (blast elim: cell_FloatD)
  from assms obtain nds where 5: "map_of (heap s df) ''newbalanceDest'' = Some (Float64 nds)"
    "i < length nds" "nds ! i = Fin nd"
    unfolding raw_row_def by (blast elim: cell_FloatD)
  from features_float_columns [OF 1(1) 2(1) 3(1) 4(1) 5(1)] 1 2 3 4 5 that
  show thesis by blast
qed

lemma cell_enriched:
  "cell (enriched am ob nb od nd df) ''balance_diff_orig'' i = iloc (Float64 (map2 f64_sub ob nb)) i"
  "cell (enriched am ob nb od nd df) ''balance_diff_dest'' i = iloc (Float64 (map2 f64_sub nd od)) i"
  "cell (enriched am ob nb od nd df) ''amount_to_oldbalance_orig'' i =
     iloc (Float64 (map2 f64_div am (map (\<lambda>x. f64_add x (Fin 1)) ob))) i"
  "cell (enriched am ob nb od nd df) ''amount_to_oldbalance_dest'' i =
     iloc (Float64 (map2 f64_div am (map (\<lambda>x. f64_add x (Fin 1)) od))) i"
  "cell (enriched am ob nb od nd df) ''error_balance_orig'' i =
     iloc (Float64 (map2 f64_sub (map2 f64_sub ob nb) am)) i"
  "cell (enriched am ob nb od nd df) ''error_balance_dest'' i =
     iloc (Float64 (map2 f64_sub (map2 f64_sub nd od) am)) i"
  "cell (enriched am ob nb od nd df) ''is_zero_balance_orig'' i =
     iloc (Int64 (map (\<lambda>x. if f64_eq x (Fin 0) then 1 else 0) nb)) i"
  "cell (enriched am ob nb od nd df) ''is_zero_balance_dest'' i =
     iloc (Int64 (map (\<lambda>x. if f64_eq x (Fin 0) then 1 else 0) od)) i"
  "cell (enriched am ob nb od nd df) ''large_transaction'' i =
     iloc (Int64 (map (\<lambda>x. if f64_gt x (Fin 200000) then 1 else 0) am)) i"
  "cell (enriched am ob nb od nd df) ''log_amount'' i = iloc (Float64 (map f64_log1p am)) i"
  "cell (enriched am ob nb od nd df) ''log_oldbalance_orig'' i = iloc (Float64 (map f64_log1p ob)) i"
  "cell (enriched am ob nb od nd df) ''log_oldbalance_dest'' i = iloc (Float64 (map f64_log1p od)) i"
  by (simp_all add: cell_def enriched_def update_conv')

lemma raw_row_input_frame:
  "raw_row (heap (store_of (input_frame ty a ob nb od nd)) 0) 0 ty a ob nb od nd"
  by (simp add: raw_row_def store_of_def input_frame_def cell_def)



section \<open>Numeric columns never raise\<close>









lemma eval_Nil: "eval_assignments [] df = Inr df"
  by simp



section \<open>What the call returns and what it adds\<close>

lemma returned_features:
  "returned (create_advanced_features df s) = eval_assignments feature_assignments (heap s df)"
proof (cases "eval_assignments feature_assignments (heap s df)")
  case (Inl e)
  from features_error [OF this] Inl show ?thesis by (simp add: returned_def)
next
  case (Inr f)
  from features_success [OF this] Inr show ?thesis by (simp add: returned_def)
qed

lemma update_fresh: "k \<notin> set (map fst al) \<Longrightarrow> AList.update k v al = al @ [(k, v)]"
  by (induction al) auto

lemma eval_appends:
  assumes "eval_assignments krs df = Inr f"
    and "distinct (map fst krs)"
    and "set (map fst krs) \<inter> set (map fst df) = {}"
  shows "\<exists>new. f = df @ new \<and> map fst new = map fst krs"
  using assms
proof (induction krs arbitrary: df)
  case Nil
  then show ?case by simp
next
  case (Cons kr krs)
  from Cons.prems(1) obtain c where c: "snd kr df = Inr c"
    and rest: "eval_assignments krs (AList.update (fst kr) c df) = Inr f"
    by (auto split: sum.splits)
  from Cons.prems(3) have fresh: "fst kr \<notin> set (map fst df)" by auto
  then have upd: "AList.update (fst kr) c df = df @ [(fst kr, c)]" by (rule update_fresh)
  from Cons.prems(2,3) have "set (map fst krs) \<inter> set (map fst (df @ [(fst kr, c)])) = {}"
    by auto
  with Cons.IH [of "df @ [(fst kr, c)]"] rest upd Cons.prems(2)
  obtain new where "f = (df @ [(fst kr, c)]) @ new" "map fst new = map fst krs"
    by auto
  then have "f = df @ ((fst kr, c) # new) \<and> map fst ((fst kr, c) # new) = map fst (kr # krs)"
    by simp
  then show ?case by blast
qed

lemma feature_names:
  "map fst feature_assignments =
     [''balance_diff_orig'', ''balance_diff_dest'', ''amount_to_oldbalance_orig'',
      ''amount_to_oldbalance_dest'', ''error_balance_orig'', ''error_balance_dest'',
      ''is_zero_balance_orig'', ''is_zero_balance_dest'', ''large_transaction'',
      ''log_amount'', ''log_oldbalance_orig'', ''log_oldbalance_dest'']"
  by (simp add: feature_assignments_def)

lemma feature_names_distinct: "distinct (map fst feature_assignments)"
  unfolding feature_names by simp

lemma known_type_reaches_classifier:
  assumes "map_of dic_type t = Some ty"
  shows "\<exists>f. trace (snd (analyser_la_transaction model t a ob nb od nd s)) =
     trace s @ [CallFeatures (nxt s), CallPredict f] \<or>
     trace (snd (analyser_la_transaction model t a ob nb od nd s)) =
     trace s @ [CallFeatures (nxt s), CallPredict f, CallPredictProba f]"
proof -
  let ?df = "input_frame ty a ob nb od nd"
  let ?s1 = "s\<lparr>heap := (heap s)(nxt s := ?df), nxt := Suc (nxt s)\<rparr>"
  let ?s2 = "?s1\<lparr>trace := trace s @ [CallFeatures (nxt s)]\<rparr>"
  have "create_advanced_features (nxt s) ?s2 =
    (Inr (nxt ?s2),
     ?s2\<lparr>heap := (heap ?s2)(nxt ?s2 := enriched [Fin a] [Fin ob] [Fin nb] [Fin od] [Fin nd]
        (heap ?s2 (nxt s))), nxt := Suc (nxt ?s2)\<rparr>)"
    by (rule features_float_columns) (simp_all add: input_frame_def)
  with assms show ?thesis
    by (auto simp: analyser_la_transaction_def sbind_def alloc_def call_features_def
        call_predict_def call_predict_proba_def Let_def split: sum.splits list.splits)
qed

section \<open>The claims\<close>



text \<open>
  Claim C2. For the transaction CASH_OUT of 1000 with origin balances 10000 and 9000 and
  destination balances 0 and 0, the derived cells are \<open>balance_diff_orig = 1000\<close>,
  \<open>error_balance_orig = 0\<close>, \<open>is_zero_balance_orig = 0\<close>,
  \<open>is_zero_balance_dest = 1\<close>, \<open>large_transaction = 0\<close> and
  \<open>amount_to_oldbalance_orig\<close> the float64 quotient of 1000 by 10001, which is
  within \<open>1 / 2 ^ 56\<close> of the fraction.
\<close>

theorem derive_example:
  assumes "heap s df = input_frame ''CASH_OUT'' 1000 10000 9000 0 0"
  shows "\<exists>r s'. create_advanced_features df s = (Inr r, s') \<and>
     cell (heap s' r) ''balance_diff_orig'' 0 = Some (FloatV (Fin 1000)) \<and>
     cell (heap s' r) ''error_balance_orig'' 0 = Some (FloatV (Fin 0)) \<and>
     cell (heap s' r) ''is_zero_balance_orig'' 0 = Some (IntV 0) \<and>
     cell (heap s' r) ''is_zero_balance_dest'' 0 = Some (IntV 1) \<and>
     cell (heap s' r) ''large_transaction'' 0 = Some (IntV 0) \<and>
     cell (heap s' r) ''amount_to_oldbalance_orig'' 0 =
       Some (FloatV (Fin (round64 (1000 / 10001)))) \<and>
     \<bar>round64 (1000 / 10001) - 1000 / 10001\<bar> \<le> 1 / 2 ^ 56"
proof -
  have "create_advanced_features df s =
    (Inr (nxt s),
     s\<lparr>heap := (heap s)(nxt s := enriched [Fin 1000] [Fin 10000] [Fin 9000] [Fin 0] [Fin 0]
       (heap s df)), nxt := Suc (nxt s)\<rparr>)"
    by (rule features_float_columns) (simp_all add: assms input_frame_def)
  moreover have "\<bar>round64 (1000 / 10001) - 1000 / 10001\<bar> \<le> \<bar>1000 / 10001\<bar> / 2 ^ 53"
    by (rule round64_error)
  then have "\<bar>round64 (1000 / 10001) - 1000 / 10001\<bar> \<le> 1 / 2 ^ 56"
    by simp
  ultimately show ?thesis
    by (simp add: cell_enriched f64_sub_def)
qed

theorem derive_example_witness:
  "\<exists>r s'. create_advanced_features 0
       (store_of (input_frame ''CASH_OUT'' 1000 10000 9000 0 0)) = (Inr r, s') \<and>
     cell (heap s' r) ''balance_diff_orig'' 0 = Some (FloatV (Fin 1000)) \<and>
     cell (heap s' r) ''error_balance_orig'' 0 = Some (FloatV (Fin 0)) \<and>
     cell (heap s' r) ''is_zero_balance_orig'' 0 = Some (IntV 0) \<and>
     cell (heap s' r) ''is_zero_balance_dest'' 0 = Some (IntV 1) \<and>
     cell (heap s' r) ''large_transaction'' 0 = Some (IntV 0) \<and>
     cell (heap s' r) ''amount_to_oldbalance_orig'' 0 =
       Some (FloatV (Fin (round64 (1000 / 10001)))) \<and>
     \<bar>round64 (1000 / 10001) - 1000 / 10001\<bar> \<le> 1 / 2 ^ 56"
proof -
  have "heap (store_of (input_frame ''CASH_OUT'' 1000 10000 9000 0 0)) 0 =
      input_frame ''CASH_OUT'' 1000 10000 9000 0 0"
    by (simp add: store_of_def)
  from derive_example [OF this] show ?thesis .
qed

text \<open>
  Claim C3. A transaction type that is not one of the four labels the program recognises
  (the keys of \<^verbatim>\<open>dic_type\<close>) makes the run fail with the KeyError of the lookup,
  which is the program's unknown-type error. The state is the one before the click:
  no frame was built, the feature function was not called and nothing reached the
  classifier.
\<close>

theorem unknown_type_fails:
  assumes "t \<notin> {''PAIEMENT'', ''TRANSFERT'', ''RETRAIT'', ''DEPOT''}"
  shows "analyser_la_transaction model t a ob nb od nd s = (Inl (KeyError t), s)"
proof -
  from assms have "map_of dic_type t = None"
    by (simp add: dic_type_def)
  then show ?thesis by (simp add: analyser_la_transaction_def)
qed

theorem unknown_type_fails_witness:
  "analyser_la_transaction \<lparr>predict = (\<lambda>_. Inr [1]), predict_proba = (\<lambda>_. Inr [(Fin 0, Fin 1)])\<rparr>
     ''WITHDRAWAL'' 1000 10000 9000 0 0 (store_of []) =
   (Inl (KeyError ''WITHDRAWAL''), store_of [])"
proof -
  have "''WITHDRAWAL'' \<notin> {''PAIEMENT'', ''TRANSFERT'', ''RETRAIT'', ''DEPOT''}" by simp
  from unknown_type_fails [OF this] show ?thesis .
qed

text \<open>
  Claim C4. For every row that is a raw transaction, \<open>large_transaction\<close> is 1 when
  the amount is above 200000 and 0 otherwise; at exactly 200000 it is 0.
\<close>

theorem large_transaction_threshold:
  assumes "raw_row (heap s df) i ty a ob nb od nd"
  shows "\<exists>r s'. create_advanced_features df s = (Inr r, s') \<and>
     cell (heap s' r) ''large_transaction'' i = Some (IntV (if 200000 < a then 1 else 0))"
proof -
  from assms obtain ams obs nbs ods nds where
    run: "create_advanced_features df s =
      (Inr (nxt s),
       s\<lparr>heap := (heap s)(nxt s := enriched ams obs nbs ods nds (heap s df)),
         nxt := Suc (nxt s)\<rparr>)"
    and rows: "i < length ams" "ams ! i = Fin a"
    by (rule raw_row_features)
  from rows show ?thesis
    unfolding run by (simp add: cell_enriched)
qed

theorem large_transaction_threshold_witness:
  "\<exists>r s'. create_advanced_features 0
       (store_of (input_frame ''TRANSFER'' 200000 500000 300000 0 200000)) = (Inr r, s') \<and>
     cell (heap s' r) ''large_transaction'' 0 =
       Some (IntV (if (200000::real) < 200000 then 1 else 0))"
  by (rule large_transaction_threshold [OF raw_row_input_frame])

text \<open>
  Claim C5. For every row that is a raw transaction, \<open>is_zero_balance_orig\<close> is 1
  when the new origin balance is 0 and 0 otherwise, and \<open>is_zero_balance_dest\<close> is 1
  when the old destination balance is 0 and 0 otherwise.
\<close>

theorem zero_balance_indicators:
  assumes "raw_row (heap s df) i ty a ob nb od nd"
  shows "\<exists>r s'. create_advanced_features df s = (Inr r, s') \<and>
     cell (heap s' r) ''is_zero_balance_orig'' i = Some (IntV (if nb = 0 then 1 else 0)) \<and>
     cell (heap s' r) ''is_zero_balance_dest'' i = Some (IntV (if od = 0 then 1 else 0))"
proof -
  from assms obtain ams obs nbs ods nds where
    run: "create_advanced_features df s =
      (Inr (nxt s),
       s\<lparr>heap := (heap s)(nxt s := enriched ams obs nbs ods nds (heap s df)),
         nxt := Suc (nxt s)\<rparr>)"
    and rows: "i < length nbs" "nbs ! i = Fin nb" "i < length ods" "ods ! i = Fin od"
    by (rule raw_row_features)
  from rows show ?thesis
    unfolding run by (simp add: cell_enriched)
qed

theorem zero_balance_indicators_witness:
  "\<exists>r s'. create_advanced_features 0
       (store_of (input_frame ''PAYMENT'' 75 75 0 20 95)) = (Inr r, s') \<and>
     cell (heap s' r) ''is_zero_balance_orig'' 0 = Some (IntV (if (0::real) = 0 then 1 else 0)) \<and>
     cell (heap s' r) ''is_zero_balance_dest'' 0 = Some (IntV (if (20::real) = 0 then 1 else 0))"
  by (rule zero_balance_indicators [OF raw_row_input_frame])




text \<open>
  An instance that is checked by hand: \<open>1 / 2 ^ 60 - 1\<close> has no 53-bit significand
  and is rounded to \<open>-1\<close>, and \<open>-1 + 1\<close> is 0.
\<close>

lemma small_term_lost_example:
  "f64_add (f64_sub (Fin (1 / 2 ^ 60)) (Fin 1)) (Fin 1) = Fin 0"
proof -
  have "f64_sub (Fin (1 / 2 ^ 60)) (Fin 1) = Fin (round64 (1 / 2 ^ 60 - 1))"
    unfolding f64_sub_def by simp
  then have "f64_sub (Fin (1 / 2 ^ 60)) (Fin 1) = Fin (- 1)"
    by (simp only: round64_loses_small_term)
  then show ?thesis by simp
qed

text \<open>
  Claim C7. The type dictionary has exactly the four keys PAIEMENT, TRANSFERT, RETRAIT
  and DEPOT, its values are exactly the four codes PAYMENT, TRANSFER, CASH_OUT and
  CASH_IN, and no two keys have the same code.
\<close>

theorem dic_type_bijective:
  "dom (map_of dic_type) = {''PAIEMENT'', ''TRANSFERT'', ''RETRAIT'', ''DEPOT''} \<and>
   ran (map_of dic_type) = {''PAYMENT'', ''TRANSFER'', ''CASH_OUT'', ''CASH_IN''} \<and>
   inj_on (map_of dic_type) (dom (map_of dic_type)) \<and>
   card (dom (map_of dic_type)) = 4"
proof -
  have d: "dom (map_of dic_type) = {''PAIEMENT'', ''TRANSFERT'', ''RETRAIT'', ''DEPOT''}"
    by (auto simp: dic_type_def dom_map_of_conv_image_fst)
  have "distinct (map fst dic_type)" by (simp add: dic_type_def)
  then have "ran (map_of dic_type) = snd ` set dic_type" by (rule ran_distinct)
  then have r: "ran (map_of dic_type) = {''PAYMENT'', ''TRANSFER'', ''CASH_OUT'', ''CASH_IN''}"
    by (auto simp: dic_type_def)
  have i: "inj_on (map_of dic_type) (dom (map_of dic_type))"
    unfolding d by (simp add: dic_type_def)
  have c: "card (dom (map_of dic_type)) = 4"
    unfolding d by simp
  from d r i c show ?thesis by blast
qed



text \<open>
  Claim C9. Two calls on equal frames give back the same thing, the same frame or the
  same exception, whatever else the two stores hold and wherever the frames lie.
\<close>

theorem features_deterministic:
  assumes "heap s1 df1 = heap s2 df2"
  shows "returned (create_advanced_features df1 s1) = returned (create_advanced_features df2 s2)"
  using assms by (simp add: returned_features)

theorem features_deterministic_witness:
  "returned (create_advanced_features 0 (store_of two_rows)) =
   returned (create_advanced_features 0 (snd (create_advanced_features 0 (store_of two_rows))))"
proof -
  have "(0::nat) < nxt (store_of two_rows)" by (simp add: store_of_def)
  then have "heap (snd (create_advanced_features 0 (store_of two_rows))) 0 =
      heap (store_of two_rows) 0"
    by (rule features_elsewhere)
  then have "heap (store_of two_rows) 0 =
      heap (snd (create_advanced_features 0 (store_of two_rows))) 0"
    by simp
  from features_deterministic [OF this] show ?thesis .
qed

text \<open>
  Claim C10. The call leaves every frame that existed before it as it was, the caller's
  included. When it returns, the reference is a new one, and for an input that has no
  column under a derived name the frame behind it is the input frame, column for
  column, followed by the twelve derived columns in their order.
\<close>

theorem features_copy:
  assumes "df < nxt s"
    and "set (map fst (heap s df)) \<inter>
         set [''balance_diff_orig'', ''balance_diff_dest'', ''amount_to_oldbalance_orig'',
              ''amount_to_oldbalance_dest'', ''error_balance_orig'', ''error_balance_dest'',
              ''is_zero_balance_orig'', ''is_zero_balance_dest'', ''large_transaction'',
              ''log_amount'', ''log_oldbalance_orig'', ''log_oldbalance_dest''] = {}"
  shows "(\<forall>b<nxt s. heap (snd (create_advanced_features df s)) b = heap s b) \<and>
     (\<forall>r. fst (create_advanced_features df s) = Inr r \<longrightarrow>
        r \<noteq> df \<and>
        (\<exists>new. heap (snd (create_advanced_features df s)) r = heap s df @ new \<and>
           map fst new =
             [''balance_diff_orig'', ''balance_diff_dest'', ''amount_to_oldbalance_orig'',
              ''amount_to_oldbalance_dest'', ''error_balance_orig'', ''error_balance_dest'',
              ''is_zero_balance_orig'', ''is_zero_balance_dest'', ''large_transaction'',
              ''log_amount'', ''log_oldbalance_orig'', ''log_oldbalance_dest'']))"
proof (intro conjI allI impI)
  fix b assume "b < nxt s"
  then show "heap (snd (create_advanced_features df s)) b = heap s b"
    by (rule features_elsewhere)
next
  fix r assume r: "fst (create_advanced_features df s) = Inr r"
  then obtain f where f: "eval_assignments feature_assignments (heap s df) = Inr f"
    by (cases "eval_assignments feature_assignments (heap s df)") (auto dest: features_error)
  note run = features_success [OF f]
  from run r have "r = nxt s" by simp
  with assms(1) show "r \<noteq> df" by simp
  from assms(2) have "set (map fst feature_assignments) \<inter> set (map fst (heap s df)) = {}"
    unfolding feature_names by blast
  from eval_appends [OF f feature_names_distinct this]
  obtain new where "f = heap s df @ new" "map fst new = map fst feature_assignments"
    by blast
  with run \<open>r = nxt s\<close>
  show "\<exists>new. heap (snd (create_advanced_features df s)) r = heap s df @ new \<and>
           map fst new =
             [''balance_diff_orig'', ''balance_diff_dest'', ''amount_to_oldbalance_orig'',
              ''amount_to_oldbalance_dest'', ''error_balance_orig'', ''error_balance_dest'',
              ''is_zero_balance_orig'', ''is_zero_balance_dest'', ''large_transaction'',
              ''log_amount'', ''log_oldbalance_orig'', ''log_oldbalance_dest'']"
    by (simp add: feature_names)
qed

theorem features_copy_witness:
  "heap (snd (create_advanced_features 0 (store_of two_rows))) 0 = two_rows \<and>
   fst (create_advanced_features 0 (store_of two_rows)) = Inr 1 \<and>
   (\<exists>new. heap (snd (create_advanced_features 0 (store_of two_rows))) 1 = two_rows @ new \<and>
      map fst new =
        [''balance_diff_orig'', ''balance_diff_dest'', ''amount_to_oldbalance_orig'',
         ''amount_to_oldbalance_dest'', ''error_balance_orig'', ''error_balance_dest'',
         ''is_zero_balance_orig'', ''is_zero_balance_dest'', ''large_transaction'',
         ''log_amount'', ''log_oldbalance_orig'', ''log_oldbalance_dest''])"
proof -
  let ?s = "store_of two_rows"
  have h1: "(0::nat) < nxt ?s" by (simp add: store_of_def)
  have h0: "heap ?s 0 = two_rows" by (simp add: store_of_def)
  have h2: "set (map fst (heap ?s 0)) \<inter>
         set [''balance_diff_orig'', ''balance_diff_dest'', ''amount_to_oldbalance_orig'',
              ''amount_to_oldbalance_dest'', ''error_balance_orig'', ''error_balance_dest'',
              ''is_zero_balance_orig'', ''is_zero_balance_dest'', ''large_transaction'',
              ''log_amount'', ''log_oldbalance_orig'', ''log_oldbalance_dest''] = {}"
    unfolding h0 by (simp add: two_rows_def)
  note copy = features_copy [OF h1 h2]
  have "create_advanced_features 0 ?s =
    (Inr (nxt ?s),
     ?s\<lparr>heap := (heap ?s)(nxt ?s := enriched [Fin 50, Fin 250000] [Fin 100, Fin 300000]
        [Fin 50, Fin 50000] [Fin 0, Fin 0] [Fin 50, Fin 250000] (heap ?s 0)),
       nxt := Suc (nxt ?s)\<rparr>)"
    by (rule features_float_columns) (simp_all add: store_of_def two_rows_def)
  then have run: "fst (create_advanced_features 0 ?s) = Inr 1"
    by (simp add: store_of_def)
  from copy h1 have "heap (snd (create_advanced_features 0 ?s)) 0 = heap ?s 0" by blast
  moreover from copy run have
    "\<exists>new. heap (snd (create_advanced_features 0 ?s)) 1 = heap ?s 0 @ new \<and>
      map fst new =
        [''balance_diff_orig'', ''balance_diff_dest'', ''amount_to_oldbalance_orig'',
         ''amount_to_oldbalance_dest'', ''error_balance_orig'', ''error_balance_dest'',
         ''is_zero_balance_orig'', ''is_zero_balance_dest'', ''large_transaction'',
         ''log_amount'', ''log_oldbalance_orig'', ''log_oldbalance_dest'']"
    by blast
  ultimately show ?thesis using run unfolding h0 by blast
qed

end
